theory Spec2Isabelle
  imports Main
begin

section \<open>Strings, instants and errors\<close>

text \<open>
  A Python \<open>str\<close> is a sequence of Unicode code points and \<open>len\<close> counts code
  points, so a string is modelled as a list of code points. The literals of the source are
  all ASCII and are written \<open>ascii ''...''\<close>.
\<close>

type_synonym codepoint = nat
type_synonym str = "codepoint list"

definition ascii :: "string \<Rightarrow> str" where
  "ascii s = map of_char s"

text \<open>\<open>sep.join(xs)\<close>.\<close>

fun join :: "str \<Rightarrow> str list \<Rightarrow> str" where
  "join sep [] = []"
| "join sep [x] = x"
| "join sep (x # y # ys) = x @ sep @ join sep (y # ys)"

text \<open>Truthiness of an \<open>Optional[str]\<close>: \<open>None\<close> and the empty string are falsy.\<close>

fun truthy :: "str option \<Rightarrow> bool" where
  "truthy None = False"
| "truthy (Some s) = (s \<noteq> [])"

section \<open>Resonance scorer (app/ai\_service.py)\<close>

text \<open>
  The dream analysis is a dictionary; the scorer reads the list-valued entries
  \<open>tags\<close>, \<open>themes\<close> and \<open>emotions\<close> with \<open>.get(key, [])\<close>.
\<close>

type_synonym analysis = "str \<rightharpoonup> str list"

definition get_list :: "analysis \<Rightarrow> str \<Rightarrow> str list" where
  "get_list d k = (case d k of None \<Rightarrow> [] | Some v \<Rightarrow> v)"

record resonance =
  score :: int
  explanation :: str

text \<open>
  The body of the \<open>try\<close> block of \<open>calculate_resonance\<close> (the chat completion
  request followed by \<open>json.loads\<close>) either raises an \<open>Exception\<close> or yields
  the parsed reply. The client is the function from the prompt to that outcome; the model
  name, response format and token limit passed along with it are constants. A reply that
  parses is returned as it is, unchecked; it is taken to have the shape the prompt asks
  for, a score and an explanation.
\<close>

datatype 'a attempt = Raised | Returned 'a

record ai_service =
  openai_client :: "(str \<Rightarrow> resonance attempt) option"

definition mock_resonance :: "analysis \<Rightarrow> str list \<Rightarrow> resonance" where
  "mock_resonance dream_analysis moment_tags =
     (let dream_tags = set (get_list dream_analysis (ascii ''tags''));
          common = dream_tags \<inter> set moment_tags
      in \<lparr>score = int (card common) * 25,
          explanation = ascii ''Subtle resonance detected''\<rparr>)"

definition resonance_prompt ::
  "str list \<Rightarrow> str list \<Rightarrow> str list \<Rightarrow> str \<Rightarrow> str list \<Rightarrow> str" where
  "resonance_prompt dream_themes dream_emotions dream_tags moment_caption moment_tags =
     ascii ''Analyze resonance between a dream and a moment:'' @ [10, 10]
     @ ascii ''Dream themes: '' @ join (ascii '', '') dream_themes @ [10]
     @ ascii ''Dream emotions: '' @ join (ascii '', '') dream_emotions @ [10]
     @ ascii ''Dream tags: '' @ join (ascii '', '') dream_tags @ [10, 10]
     @ ascii ''Moment caption: '' @ moment_caption @ [10]
     @ ascii ''Moment tags: '' @ join (ascii '', '') moment_tags @ [10, 10]
     @ ascii ''Provide JSON:'' @ [10]
     @ ascii ''{'' @ [10]
     @ ascii ''  '' @ [34] @ ascii ''score'' @ [34] @ ascii '': 0-100,'' @ [10]
     @ ascii ''  '' @ [34] @ ascii ''explanation'' @ [34] @ ascii '': '' @ [34]
     @ ascii ''poetic one-sentence explanation of connection'' @ [34] @ [10]
     @ ascii ''}''"

text \<open>
  The dictionary returned at the end of \<open>calculate_resonance\<close>. The iteration order of
  a Python set is not fixed by the language; \<open>iter\<close> is that order.
\<close>

definition base_resonance :: "(str set \<Rightarrow> str list) \<Rightarrow> str set \<Rightarrow> int \<Rightarrow> resonance" where
  "base_resonance iter common_tags score0 =
     \<lparr>score = min score0 100,
      explanation = (if common_tags \<noteq> {}
                     then ascii ''Shared elements: '' @ join (ascii '', '') (iter common_tags)
                     else ascii ''Subtle connection'')\<rparr>"

text \<open>
  \<open>calculate_resonance\<close> returns the result together with the list of prompts it sent
  to the client, so that "refinement was attempted" is observable.
\<close>

definition calculate_resonance ::
  "ai_service \<Rightarrow> (str set \<Rightarrow> str list) \<Rightarrow> analysis \<Rightarrow> str list \<Rightarrow> str option
     \<Rightarrow> resonance \<times> str list" where
  "calculate_resonance svc iter dream_analysis moment_tags moment_caption =
     (case openai_client svc of
        None \<Rightarrow> (mock_resonance dream_analysis moment_tags, [])
      | Some client \<Rightarrow>
          (let dream_tags = get_list dream_analysis (ascii ''tags'');
               dream_themes = get_list dream_analysis (ascii ''themes'');
               dream_emotions = get_list dream_analysis (ascii ''emotions'');
               common_tags = set dream_tags \<inter> set moment_tags;
               score0 = int (card common_tags) * 20
           in if score0 > 20 \<and> truthy moment_caption
              then (let prompt = resonance_prompt dream_themes dream_emotions dream_tags
                                   (the moment_caption) moment_tags
                    in case client prompt of
                         Returned result \<Rightarrow> (result, [prompt])
                       | Raised \<Rightarrow> (base_resonance iter common_tags score0, [prompt]))
              else (base_resonance iter common_tags score0, [])))"

section \<open>Content items, settings and the store\<close>

text \<open>
  An aware \<open>datetime\<close> is an instant on the UTC time line with microsecond resolution:
  the number of microseconds since the epoch. A \<open>timedelta\<close> is a number of
  microseconds. The range of \<open>datetime\<close> (years 1 to 9999) matters where an
  amount taken from the configuration is added to the clock reading, in
  \<open>create\_moment\<close>; it is modelled there. In \<open>create\_dream\<close> the amount is at
  most 30 days, which keeps a present-day clock reading inside the range.
\<close>

type_synonym instant = int

definition timedelta_days :: "int \<Rightarrow> int" where
  "timedelta_days d = d * 86400000000"


definition timedelta_seconds :: "int \<Rightarrow> int" where
  "timedelta_seconds s = s * 1000000"

text \<open>\<open>now.replace(hour=0, minute=0, second=0, microsecond=0)\<close> for a UTC instant.\<close>

definition day_start :: "instant \<Rightarrow> instant" where
  "day_start now = now - now mod 86400000000"

type_synonym uuid = nat

text \<open>\<open>str(n)\<close> for an integer.\<close>

fun str_of_nat :: "nat \<Rightarrow> str" where
  "str_of_nat n = (if n < 10 then [48 + n] else str_of_nat (n div 10) @ [48 + n mod 10])"

declare str_of_nat.simps [simp del]

definition str_of_int :: "int \<Rightarrow> str" where
  "str_of_int i = (if i < 0 then 45 # str_of_nat (nat (- i)) else str_of_nat (nat i))"

text \<open>
  \<open>HTTPException(status_code, detail)\<close>; \<open>Unhandled\<close> is any other exception that
  leaves a handler, which the global exception handler turns into a 500 response.
\<close>

datatype error = HTTPException nat str | Unhandled str

text \<open>The request schemas \<open>DreamCreate\<close> and \<open>MomentCreate\<close> (app/schemas.py).\<close>

record dream_create =
  description :: str
  title :: "str option"
  audio_url :: "str option"
  is_public :: bool
  ttl_days :: int

record moment_create =
  caption :: "str option"
  media_type :: str
  media_url :: str
  location :: "str option"

text \<open>
  Field validation of \<open>DreamCreate\<close>: \<open>description\<close> has 10 to 5000 characters,
  \<open>title\<close> at most 200, \<open>ttl_days\<close> is between 1 and 30. A request that fails it is
  answered with status 422 before the handler runs.
\<close>

definition DreamCreate_valid :: "dream_create \<Rightarrow> bool" where
  "DreamCreate_valid d \<longleftrightarrow>
     10 \<le> length (dream_create.description d) \<and> length (dream_create.description d) \<le> 5000
     \<and> (case dream_create.title d of None \<Rightarrow> True | Some t \<Rightarrow> length t \<le> 200)
     \<and> 1 \<le> dream_create.ttl_days d \<and> dream_create.ttl_days d \<le> 30"

text \<open>
  The rows (app/models.py). Dreams and moments share the columns of \<open>item\<close>; the
  column \<open>id\<close> is called \<open>item_id\<close>.
\<close>

record item =
  item_id :: uuid
  user_id :: uuid
  ai_tags :: "str list option"
  created_at :: instant
  expires_at :: instant
  is_visible :: bool
  view_count :: int

record dream = item +
  title :: "str option"
  description :: str
  audio_url :: "str option"
  ai_analysis :: "analysis option"
  generated_image_url :: "str option"
  ttl_days :: int
  is_public :: bool

record moment = item +
  caption :: "str option"
  media_type :: str
  media_url :: str
  location :: "str option"

record db =
  dreams :: "dream list"
  moments :: "moment list"

record settings =
  MOMENT_TTL_SECONDS :: int
  MAX_DREAMS_PER_DAY :: int
  MAX_MOMENTS_PER_HOUR :: int
  ENABLE_AI_FEATURES :: bool

definition default_settings :: settings where
  "default_settings =
     \<lparr>MOMENT_TTL_SECONDS = 60, MAX_DREAMS_PER_DAY = 10, MAX_MOMENTS_PER_HOUR = 20,
      ENABLE_AI_FEATURES = True\<rparr>"

section \<open>Moderation (app/moderation.py)\<close>

record moderation_result =
  flagged :: bool
  categories :: "(str \<times> bool) list"

text \<open>
  The moderation client maps a text to the outcome of the moderation request. The text of
  \<open>get_violation_message\<close> is Cyrillic and no claim depends on it: it is a field of the
  moderator.
\<close>

record content_moderator =
  moderation_client :: "(str \<Rightarrow> moderation_result attempt) option"
  get_violation_message :: "moderation_result \<Rightarrow> str"

definition not_flagged :: moderation_result where
  "not_flagged = \<lparr>flagged = False, categories = []\<rparr>"

definition check_text :: "content_moderator \<Rightarrow> str \<Rightarrow> moderation_result" where
  "check_text cm text =
     (case moderation_client cm of
        None \<Rightarrow> not_flagged
      | Some client \<Rightarrow>
          if text = [] then not_flagged
          else (case client text of Returned r \<Rightarrow> r | Raised \<Rightarrow> not_flagged))"

section \<open>Dreams (app/routers/dreams.py)\<close>

text \<open>
  \<open>create\_dream\<close> reads the clock twice (\<open>now0\<close> for the quota window, \<open>now\<close> for
  the row) and gets the new row's id from the store (\<open>new_id\<close>). It returns the store
  after the request and either the error raised or the created row together with
  whether the analysis task was scheduled. On an error nothing was added to the session,
  so the store is the one it started from. The schema always has the attribute
  \<open>ttl_days\<close>, so the \<open>hasattr\<close> test holds.
\<close>

definition text_to_check :: "dream_create \<Rightarrow> str" where
  "text_to_check dream_data =
     (case dream_create.title dream_data of None \<Rightarrow> [] | Some t \<Rightarrow> t)
     @ ascii '' '' @ dream_create.description dream_data"

definition today_dreams :: "instant \<Rightarrow> uuid \<Rightarrow> db \<Rightarrow> dream list" where
  "today_dreams now0 current_user d =
     (let today_start = day_start now0
      in filter (\<lambda>r. user_id r = current_user \<and> created_at r \<ge> today_start) (dreams d))"

definition create_dream ::
  "settings \<Rightarrow> content_moderator \<Rightarrow> instant \<Rightarrow> instant \<Rightarrow> uuid \<Rightarrow> uuid \<Rightarrow> dream_create
     \<Rightarrow> db \<Rightarrow> db \<times> (error + dream \<times> bool)" where
  "create_dream cfg cm now0 now new_id current_user dream_data d =
     (let moderation_result = check_text cm (text_to_check dream_data)
      in if flagged moderation_result
         then (d, Inl (HTTPException 400 (get_violation_message cm moderation_result)))
         else if int (length (today_dreams now0 current_user d)) \<ge> MAX_DREAMS_PER_DAY cfg
         then (d, Inl (HTTPException 429
                 (ascii ''Maximum '' @ str_of_int (MAX_DREAMS_PER_DAY cfg)
                  @ ascii '' dreams per day'')))
         else
           (let ttl_days0 = dream_create.ttl_days dream_data;
                ttl_days1 = (if ttl_days0 \<notin> {1, 7, 30} then 1 else ttl_days0);
                expires = now + timedelta_days ttl_days1;
                new_dream =
                  \<lparr>item_id = new_id, user_id = current_user, ai_tags = None,
                   created_at = now, expires_at = expires, is_visible = True,
                   view_count = 0,
                   title = dream_create.title dream_data,
                   description = dream_create.description dream_data,
                   audio_url = dream_create.audio_url dream_data,
                   ai_analysis = None, generated_image_url = None,
                   ttl_days = ttl_days1,
                   is_public = dream_create.is_public dream_data\<rparr>
            in (d\<lparr>dreams := dreams d @ [new_dream]\<rparr>,
                Inr (new_dream, ENABLE_AI_FEATURES cfg))))"

text \<open>
  \<open>scalar_one_or_none\<close>: no row gives \<open>None\<close>, one row gives it, more rows raise.
\<close>

fun scalar_one_or_none :: "'a list \<Rightarrow> error + 'a option" where
  "scalar_one_or_none [] = Inr None"
| "scalar_one_or_none [x] = Inr (Some x)"
| "scalar_one_or_none (x # y # ys) = Inl (Unhandled (ascii ''MultipleResultsFound''))"

text \<open>
  \<open>get\_dreams\<close>: the public stream. \<open>skip\<close> and \<open>limit\<close> are unvalidated integers
  handed to the store as OFFSET and LIMIT; the store rejects a negative one. Rows with
  equal \<open>created_at\<close> keep their table order here (the store does not fix their order).
\<close>

definition get_dreams :: "instant \<Rightarrow> int \<Rightarrow> int \<Rightarrow> db \<Rightarrow> error + dream list" where
  "get_dreams now skip limit d =
     (if skip < 0 \<or> limit < 0 then Inl (Unhandled (ascii ''DBAPIError''))
      else Inr (take (nat limit) (drop (nat skip)
             (sort_key (\<lambda>r. - created_at r)
                (filter (\<lambda>r. is_public r \<and> is_visible r \<and> expires_at r > now) (dreams d))))))"

definition get_dream :: "instant \<Rightarrow> uuid \<Rightarrow> db \<Rightarrow> db \<times> (error + dream)" where
  "get_dream now dream_id d =
     (case scalar_one_or_none (filter (\<lambda>r. item_id r = dream_id) (dreams d)) of
        Inl e \<Rightarrow> (d, Inl e)
      | Inr None \<Rightarrow> (d, Inl (HTTPException 404 (ascii ''Dream not found'')))
      | Inr (Some r) \<Rightarrow>
          if expires_at r \<le> now then (d, Inl (HTTPException 410 (ascii ''Dream expired'')))
          else if \<not> is_public r
          then (d, Inl (HTTPException 403 (ascii ''This dream is private'')))
          else
            (let r' = r\<lparr>view_count := view_count r + 1\<rparr>
             in (d\<lparr>dreams := map (\<lambda>x. if item_id x = dream_id then r' else x) (dreams d)\<rparr>,
                 Inr r')))"

section \<open>Moments (app/routers/moments.py)\<close>







text \<open>
  \<open>get\_moments\<close> and \<open>get\_moment\<close>, as for dreams; a moment has no public flag.
\<close>

definition get_moments :: "instant \<Rightarrow> int \<Rightarrow> int \<Rightarrow> db \<Rightarrow> error + moment list" where
  "get_moments now skip limit d =
     (if skip < 0 \<or> limit < 0 then Inl (Unhandled (ascii ''DBAPIError''))
      else Inr (take (nat limit) (drop (nat skip)
             (sort_key (\<lambda>r. - created_at r)
                (filter (\<lambda>r. is_visible r \<and> expires_at r > now) (moments d))))))"

definition get_moment :: "instant \<Rightarrow> uuid \<Rightarrow> db \<Rightarrow> db \<times> (error + moment)" where
  "get_moment now moment_id d =
     (case scalar_one_or_none (filter (\<lambda>r. item_id r = moment_id) (moments d)) of
        Inl e \<Rightarrow> (d, Inl e)
      | Inr None \<Rightarrow> (d, Inl (HTTPException 404 (ascii ''Moment not found'')))
      | Inr (Some r) \<Rightarrow>
          if expires_at r \<le> now then (d, Inl (HTTPException 410 (ascii ''Moment expired'')))
          else
            (let r' = r\<lparr>view_count := view_count r + 1\<rparr>
             in (d\<lparr>moments := map (\<lambda>x. if item_id x = moment_id then r' else x) (moments d)\<rparr>,
                 Inr r')))"

section \<open>Visibility sweep (cleanup\_expired.py)\<close>

record cleanup_result =
  hidden_moments :: nat
  hidden_dreams :: nat
  timestamp :: instant

text \<open>
  The rows selected by \<open>expires_at <= now\<close> and \<open>is_visible == True\<close> get
  \<open>is_visible = False\<close>; every other row is left as it is.
\<close>

definition hide_expired :: "instant \<Rightarrow> 'a item_scheme list \<Rightarrow> 'a item_scheme list" where
  "hide_expired now rows =
     map (\<lambda>r. if expires_at r \<le> now \<and> is_visible r then r\<lparr>is_visible := False\<rparr> else r) rows"

definition count_expired :: "instant \<Rightarrow> 'a item_scheme list \<Rightarrow> nat" where
  "count_expired now rows = length (filter (\<lambda>r. expires_at r \<le> now \<and> is_visible r) rows)"

text \<open>
  \<open>commit_ok\<close> says whether the session's work reaches the store. When it does not, the
  \<open>except\<close> branch rolls back and raises again: the store is unchanged.
\<close>

definition cleanup_expired_content :: "bool \<Rightarrow> instant \<Rightarrow> db \<Rightarrow> db \<times> (error + cleanup_result)" where
  "cleanup_expired_content commit_ok now d =
     (if commit_ok
      then (d\<lparr>moments := hide_expired now (moments d), dreams := hide_expired now (dreams d)\<rparr>,
            Inr \<lparr>hidden_moments = count_expired now (moments d),
                 hidden_dreams = count_expired now (dreams d),
                 timestamp = now\<rparr>)
      else (d, Inl (Unhandled (ascii ''cleanup error''))))"

section \<open>Live subscribers (app/main.py)\<close>

text \<open>
  The set \<open>active_connections\<close> is a duplicate-free list; its order is the order in
  which the set is iterated. \<open>send c m\<close> says whether \<open>send_json\<close> of message \<open>m\<close>
  on connection \<open>c\<close> returns (\<open>True\<close>) or raises (\<open>False\<close>). \<open>broadcast\<close> returns
  the set after the loop and the log of the sends it made, each with its outcome.
\<close>

definition connect :: "'c \<Rightarrow> 'c list \<Rightarrow> 'c list" where
  "connect c active = (if c \<in> set active then active else active @ [c])"

definition disconnect :: "'c \<Rightarrow> 'c list \<Rightarrow> 'c list" where
  "disconnect c active = removeAll c active"

fun broadcast_loop ::
  "('c \<Rightarrow> 'm \<Rightarrow> bool) \<Rightarrow> 'm \<Rightarrow> 'c list \<Rightarrow> 'c list \<times> ('c \<times> bool) list
     \<Rightarrow> 'c list \<times> ('c \<times> bool) list" where
  "broadcast_loop send m [] st = st"
| "broadcast_loop send m (c # cs) (active, log) =
     (if send c m then broadcast_loop send m cs (active, log @ [(c, True)])
      else broadcast_loop send m cs (removeAll c active, log @ [(c, False)]))"

definition broadcast :: "('c \<Rightarrow> 'm \<Rightarrow> bool) \<Rightarrow> 'm \<Rightarrow> 'c list \<Rightarrow> 'c list \<times> ('c \<times> bool) list" where
  "broadcast send m active = broadcast_loop send m active (active, [])"

section \<open>Moment tags (app/ai\_service.py)\<close>

text \<open>
  \<open>str.lower\<close> and the whitespace test of \<open>str.split\<close> are tables of the Unicode
  database; they are parameters of the model.
\<close>

record unicode =
  lower :: "str \<Rightarrow> str"
  isspace :: "codepoint \<Rightarrow> bool"

text \<open>The two tables on ASCII text: \<open>A\<close> to \<open>Z\<close> are lowered, the rest is kept.\<close>

definition ascii_unicode :: unicode where
  "ascii_unicode =
     \<lparr>lower = map (\<lambda>c. if 65 \<le> c \<and> c \<le> 90 then c + 32 else c),
      isspace = (\<lambda>c. c \<in> {9, 10, 11, 12, 13, 28, 29, 30, 31, 32})\<rparr>"

text \<open>\<open>s.split()\<close>: the maximal runs of characters that are not whitespace.\<close>

fun split_words :: "(codepoint \<Rightarrow> bool) \<Rightarrow> str \<Rightarrow> str \<Rightarrow> str list" where
  "split_words sp w [] = (if w = [] then [] else [w])"
| "split_words sp w (c # cs) =
     (if sp c then (if w = [] then split_words sp [] cs else w # split_words sp [] cs)
      else split_words sp (w @ [c]) cs)"

definition str_split :: "unicode \<Rightarrow> str \<Rightarrow> str list" where
  "str_split u s = split_words (isspace u) [] s"

definition analyze_moment :: "ai_service \<Rightarrow> unicode \<Rightarrow> str option \<Rightarrow> str \<Rightarrow> str list" where
  "analyze_moment svc u caption0 media_type0 =
     (if \<not> truthy caption0 then [media_type0, ascii ''moment'', ascii ''now'']
      else
        (let words = str_split u (lower u (the caption0));
             tags = take 5 (filter (\<lambda>w. length w > 3) words)
         in tags @ [media_type0] @ [ascii ''moment'']))"

section \<open>Repeated sweeps\<close>

text \<open>
  The sweep is run periodically; \<open>run_sweeps\<close> runs it once for each entry of a
  schedule that gives the commit outcome and the clock reading of every run.
\<close>

fun run_sweeps :: "(bool \<times> instant) list \<Rightarrow> db \<Rightarrow> db" where
  "run_sweeps [] d = d"
| "run_sweeps ((commit_ok, now) # ts) d =
     run_sweeps ts (fst (cleanup_expired_content commit_ok now d))"

text \<open>
  Two rows are related by \<open>only_hidden\<close> when the second is the first with at most
  the visibility flag switched off.
\<close>

definition only_hidden :: "'a item_scheme \<Rightarrow> 'a item_scheme \<Rightarrow> bool" where
  "only_hidden r r' \<longleftrightarrow>
     (is_visible r' \<longrightarrow> is_visible r) \<and> (\<not> is_visible r \<longrightarrow> r' = r)
     \<and> r' = r\<lparr>is_visible := is_visible r'\<rparr>"

section \<open>Sample inputs\<close>

definition five_tags :: "str list" where
  "five_tags =
     [ascii ''ocean'', ascii ''forest'', ascii ''flying'', ascii ''mountain'', ascii ''river'']"

definition two_tags :: "str list" where
  "two_tags = [ascii ''wonder'', ascii ''journey'']"

definition three_tags :: "str list" where
  "three_tags = [ascii ''wonder'', ascii ''journey'', ascii ''sky'']"

definition sample_dream :: "uuid \<Rightarrow> uuid \<Rightarrow> instant \<Rightarrow> int \<Rightarrow> bool \<Rightarrow> dream" where
  "sample_dream i u t ttl vis =
     \<lparr>item_id = i, user_id = u, ai_tags = None, created_at = t,
      expires_at = t + timedelta_days ttl, is_visible = vis, view_count = 0,
      title = None, description = ascii ''I was flying over the sea'', audio_url = None,
      ai_analysis = None, generated_image_url = None, ttl_days = ttl, is_public = True\<rparr>"

definition sample_moment :: "uuid \<Rightarrow> uuid \<Rightarrow> instant \<Rightarrow> int \<Rightarrow> bool \<Rightarrow> moment" where
  "sample_moment i u t ttl vis =
     \<lparr>item_id = i, user_id = u, ai_tags = None, created_at = t,
      expires_at = t + timedelta_seconds ttl, is_visible = vis, view_count = 0,
      caption = None, media_type = ascii ''photo'', media_url = ascii ''/uploads/a.jpg'',
      location = None\<rparr>"

definition sample_db :: db where
  "sample_db =
     \<lparr>dreams = [sample_dream 1 7 0 1 True, sample_dream 2 7 0 30 True,
                 sample_dream 3 8 0 1 False],
      moments = [sample_moment 4 7 0 60 True]\<rparr>"

definition busy_db :: db where
  "busy_db = \<lparr>dreams = map (\<lambda>i. sample_dream i 7 (int i) 1 True) [0..<10], moments = []\<rparr>"

definition sample_request :: dream_create where
  "sample_request =
     \<lparr>dream_create.description = ascii ''I was flying over the sea'',
      dream_create.title = None, dream_create.audio_url = None,
      dream_create.is_public = True, dream_create.ttl_days = 5\<rparr>"

definition strict_moderator :: content_moderator where
  "strict_moderator =
     \<lparr>moderation_client =
        Some (\<lambda>t. Returned \<lparr>flagged = True, categories = [(ascii ''violence'', True)]\<rparr>),
      get_violation_message = (\<lambda>r. ascii ''flagged'')\<rparr>"

definition no_moderator :: content_moderator where
  "no_moderator = \<lparr>moderation_client = None, get_violation_message = (\<lambda>r. [])\<rparr>"






definition sample_caption :: str where
  "sample_caption = ascii ''Walking along the Beach at sunset with old friends today''"

section \<open>Properties\<close>

subsection \<open>Strings\<close>

lemma ascii_nonempty: "ascii (c # cs) \<noteq> []"
  by (simp add: ascii_def)

lemma ascii_inj: "(ascii s = ascii t) = (s = t)"
  by (simp add: ascii_def inj_on_def)

subsection \<open>Resonance scorer\<close>

lemma common_card_five: "card (set five_tags) = 5"
  by (simp add: five_tags_def ascii_def)

lemma common_two: "set three_tags \<inter> set two_tags = set two_tags" "card (set two_tags) = 2"
  by (auto simp: two_tags_def three_tags_def ascii_def)

text \<open>
  With the client present, a result that did not come from the refinement reply has a
  score between 0 and 100.
\<close>

lemma base_path_score_in_range:
  assumes "openai_client svc = Some client"
    and "snd (calculate_resonance svc iter d mt cap) = [] \<or> (\<forall>p. client p = Raised)"
  shows "0 \<le> score (fst (calculate_resonance svc iter d mt cap))
         \<and> score (fst (calculate_resonance svc iter d mt cap)) \<le> 100"
  using assms
  by (auto simp: calculate_resonance_def base_resonance_def Let_def split: attempt.splits)

text \<open>
  C1. The claim is that the score lies in [0,100] on every path, the fallback path
  included. Without the client, \<open>calculate_resonance\<close> returns 25 for each shared tag
  and does not cap the product: a dream analysis and a moment that share five tags get the
  score 125.
\<close>

theorem fallback_score_exceeds_100:
  "score (fst (calculate_resonance \<lparr>openai_client = None\<rparr> (\<lambda>S. [])
                 [ascii ''tags'' \<mapsto> five_tags] five_tags None)) = 125"
  by (simp add: calculate_resonance_def mock_resonance_def get_list_def five_tags_def ascii_def)

text \<open>
  C2. On the deterministic path (the client is there and the result is not a refinement
  reply: no request was sent, or the request raised) the score is
  \<open>min(100, 20 * |dreamTags \<inter> momentTags|)\<close>, the tags being compared as sets of
  strings, code point by code point; five shared tags give 100.
\<close>

theorem base_score_formula:
  assumes "openai_client svc = Some client"
    and "snd (calculate_resonance svc iter d mt cap) = [] \<or> (\<forall>p. client p = Raised)"
  shows "score (fst (calculate_resonance svc iter d mt cap))
           = min 100 (20 * int (card (set (get_list d (ascii ''tags'')) \<inter> set mt)))
         \<and> (card (set (get_list d (ascii ''tags'')) \<inter> set mt) = 5
              \<longrightarrow> score (fst (calculate_resonance svc iter d mt cap)) = 100)"
  using assms
  by (auto simp: calculate_resonance_def base_resonance_def Let_def split: attempt.splits)

theorem base_score_formula_witness:
  "score (fst (calculate_resonance \<lparr>openai_client = Some (\<lambda>p. Raised)\<rparr> (\<lambda>S. [])
       [ascii ''tags'' \<mapsto> five_tags] five_tags (Some (ascii ''walk'')))) = 100
   \<and> score (fst (calculate_resonance \<lparr>openai_client = Some (\<lambda>p. Raised)\<rparr> (\<lambda>S. [])
       [ascii ''tags'' \<mapsto> [ascii ''Sky'', ascii ''sea'']] [ascii ''sky'', ascii ''sea'']
       None)) = 20"
proof -
  have a: "openai_client \<lparr>openai_client = Some (\<lambda>p. Raised)\<rparr> = Some (\<lambda>p. Raised)"
    by simp
  have b: "card (set (get_list [ascii ''tags'' \<mapsto> five_tags] (ascii ''tags''))
             \<inter> set five_tags) = 5"
    by (simp add: get_list_def common_card_five)
  have c: "card (set (get_list [ascii ''tags'' \<mapsto> [ascii ''Sky'', ascii ''sea'']]
                   (ascii ''tags'')) \<inter> set [ascii ''sky'', ascii ''sea'']) = 1"
    by (simp add: get_list_def ascii_def)
  from base_score_formula [OF a, of "\<lambda>S. []" "[ascii ''tags'' \<mapsto> five_tags]" five_tags
         "Some (ascii ''walk'')"] b
  have 1: "score (fst (calculate_resonance \<lparr>openai_client = Some (\<lambda>p. Raised)\<rparr> (\<lambda>S. [])
       [ascii ''tags'' \<mapsto> five_tags] five_tags (Some (ascii ''walk'')))) = 100"
    by simp
  from base_score_formula [OF a, of "\<lambda>S. []"
         "[ascii ''tags'' \<mapsto> [ascii ''Sky'', ascii ''sea'']]" "[ascii ''sky'', ascii ''sea'']"
         None] c
  have 2: "score (fst (calculate_resonance \<lparr>openai_client = Some (\<lambda>p. Raised)\<rparr> (\<lambda>S. [])
       [ascii ''tags'' \<mapsto> [ascii ''Sky'', ascii ''sea'']] [ascii ''sky'', ascii ''sea'']
       None)) = 20"
    by simp
  from 1 2 show ?thesis by simp
qed

text \<open>
  C3. A refinement request is sent only when the client is there, the caption is present
  and the base score exceeds 20, and at most one is sent. When the request that was sent
  raises, the result is the deterministic base tuple: the capped score with its synthesized
  explanation, the same value the scorer returns for these tags when no refinement is
  tried. The scorer returns a value in every case.
\<close>

theorem refinement_gated_and_fails_to_base:
  "(snd (calculate_resonance svc iter d mt cap) \<noteq> [] \<longrightarrow>
      openai_client svc \<noteq> None \<and> truthy cap
      \<and> 20 < min 100 (20 * int (card (set (get_list d (ascii ''tags'')) \<inter> set mt))))
   \<and> length (snd (calculate_resonance svc iter d mt cap)) \<le> 1
   \<and> (\<forall>client p. openai_client svc = Some client
          \<and> snd (calculate_resonance svc iter d mt cap) = [p] \<and> client p = Raised \<longrightarrow>
        fst (calculate_resonance svc iter d mt cap)
          = base_resonance iter (set (get_list d (ascii ''tags'')) \<inter> set mt)
              (int (card (set (get_list d (ascii ''tags'')) \<inter> set mt)) * 20)
        \<and> fst (calculate_resonance svc iter d mt cap)
            = fst (calculate_resonance svc iter d mt None))"
  by (auto simp: calculate_resonance_def Let_def split: attempt.splits option.splits)

theorem refinement_gated_and_fails_to_base_witness:
  "snd (calculate_resonance \<lparr>openai_client = Some (\<lambda>p. Raised)\<rparr> (\<lambda>S. two_tags)
         [ascii ''tags'' \<mapsto> three_tags] two_tags (Some (ascii ''walk'')))
     = [resonance_prompt [] [] three_tags (ascii ''walk'') two_tags]
   \<and> fst (calculate_resonance \<lparr>openai_client = Some (\<lambda>p. Raised)\<rparr> (\<lambda>S. two_tags)
         [ascii ''tags'' \<mapsto> three_tags] two_tags (Some (ascii ''walk'')))
     = \<lparr>score = 40, explanation = ascii ''Shared elements: wonder, journey''\<rparr>"
proof -
  let ?svc = "\<lparr>openai_client = Some (\<lambda>p. Raised)\<rparr> :: ai_service"
  let ?d = "[ascii ''tags'' \<mapsto> three_tags] :: analysis"
  let ?r = "calculate_resonance ?svc (\<lambda>S. two_tags) ?d two_tags (Some (ascii ''walk''))"
  have g: "get_list ?d (ascii ''tags'') = three_tags" "get_list ?d (ascii ''themes'') = []"
    "get_list ?d (ascii ''emotions'') = []"
    by (simp_all add: get_list_def ascii_inj)
  have log: "snd ?r = [resonance_prompt [] [] three_tags (ascii ''walk'') two_tags]"
    by (simp add: calculate_resonance_def Let_def g common_two ascii_nonempty)
  have "fst ?r = base_resonance (\<lambda>S. two_tags) (set two_tags) (2 * 20)"
    using refinement_gated_and_fails_to_base
            [of ?svc "\<lambda>S. two_tags" ?d two_tags "Some (ascii ''walk'')"] log
    by (simp add: g common_two)
  then have "fst ?r = \<lparr>score = 40, explanation = ascii ''Shared elements: wonder, journey''\<rparr>"
    by (simp add: base_resonance_def two_tags_def ascii_def)
  with log show ?thesis by simp
qed

subsection \<open>Visibility sweep\<close>

lemma only_hidden_refl: "only_hidden r r"
  by (simp add: only_hidden_def)

lemma only_hidden_trans: "only_hidden a b \<Longrightarrow> only_hidden b c \<Longrightarrow> only_hidden a c"
  unfolding only_hidden_def
  by (metis item.surjective item.update_convs(6))

lemma list_all2_only_hidden_trans:
  "list_all2 only_hidden xs ys \<Longrightarrow> list_all2 only_hidden ys zs \<Longrightarrow> list_all2 only_hidden xs zs"
  by (rule list_all2_trans [of only_hidden only_hidden only_hidden]) (rule only_hidden_trans)

lemma only_hidden_ids: "list_all2 only_hidden xs ys \<Longrightarrow> map item_id ys = map item_id xs"
proof (induction xs ys rule: list_all2_induct)
  case Nil
  show ?case by simp
next
  case (Cons x xs y ys)
  from Cons.hyps(1) have "y = x\<lparr>is_visible := is_visible y\<rparr>"
    by (simp add: only_hidden_def)
  then have "item_id y = item_id x"
    by (metis item.select_convs(1) item.surjective item.update_convs(6))
  with Cons.IH show ?case by simp
qed

lemma hide_expired_eq:
  "hide_expired now rows = map (\<lambda>r. r\<lparr>is_visible := is_visible r \<and> now < expires_at r\<rparr>) rows"
  by (induction rows) (auto simp: hide_expired_def)

lemma hide_expired_only_hidden: "list_all2 only_hidden rows (hide_expired now rows)"
  by (induction rows) (auto simp: hide_expired_def only_hidden_def)

lemma hide_expired_idem: "hide_expired now (hide_expired now rows) = hide_expired now rows"
  by (induction rows) (auto simp: hide_expired_def)

lemma sweep_only_hidden:
  "list_all2 only_hidden (dreams d) (dreams (fst (cleanup_expired_content ok now d)))
   \<and> list_all2 only_hidden (moments d) (moments (fst (cleanup_expired_content ok now d)))"
  by (simp add: cleanup_expired_content_def hide_expired_only_hidden list_all2_refl only_hidden_refl)

lemma run_sweeps_only_hidden:
  "list_all2 only_hidden (dreams d) (dreams (run_sweeps ts d))
   \<and> list_all2 only_hidden (moments d) (moments (run_sweeps ts d))"
proof (induction ts arbitrary: d)
  case Nil
  show ?case by (simp add: list_all2_refl only_hidden_refl)
next
  case (Cons a ts)
  obtain ok now where a: "a = (ok, now)" by (cases a)
  let ?d1 = "fst (cleanup_expired_content ok now d)"
  have 1: "list_all2 only_hidden (dreams d) (dreams ?d1)"
    and 2: "list_all2 only_hidden (moments d) (moments ?d1)"
    using sweep_only_hidden [of d ok now] by simp_all
  have 3: "list_all2 only_hidden (dreams ?d1) (dreams (run_sweeps ts ?d1))"
    and 4: "list_all2 only_hidden (moments ?d1) (moments (run_sweeps ts ?d1))"
    using Cons.IH [of ?d1] by simp_all
  show ?case
    using list_all2_only_hidden_trans [OF 1 3] list_all2_only_hidden_trans [OF 2 4]
    by (simp add: a)
qed

text \<open>
  C4. A sweep that commits switches the visibility flag off exactly on the rows that are
  visible and have \<open>expires_at <= now\<close> and changes nothing else; a sweep that fails
  to commit changes nothing. Running the committed sweep again at the same instant changes
  nothing. Over any schedule of sweeps no row is added or removed, no row that was hidden
  becomes visible, a row that was hidden is unchanged, and a row changes in its visibility
  flag only.
\<close>

theorem sweep_hides_expired_monotone:
  "(let d' = fst (cleanup_expired_content True now d) in
      dreams d' = map (\<lambda>r. r\<lparr>is_visible := is_visible r \<and> now < expires_at r\<rparr>) (dreams d)
      \<and> moments d' = map (\<lambda>r. r\<lparr>is_visible := is_visible r \<and> now < expires_at r\<rparr>) (moments d)
      \<and> fst (cleanup_expired_content commit_ok now d') = d')
   \<and> fst (cleanup_expired_content False now d) = d
   \<and> map item_id (dreams (run_sweeps ts d)) = map item_id (dreams d)
   \<and> map item_id (moments (run_sweeps ts d)) = map item_id (moments d)
   \<and> list_all2 (\<lambda>r r'. (is_visible r' \<longrightarrow> is_visible r) \<and> (\<not> is_visible r \<longrightarrow> r' = r)
                   \<and> r' = r\<lparr>is_visible := is_visible r'\<rparr>)
        (dreams d) (dreams (run_sweeps ts d))
   \<and> list_all2 (\<lambda>r r'. (is_visible r' \<longrightarrow> is_visible r) \<and> (\<not> is_visible r \<longrightarrow> r' = r)
                   \<and> r' = r\<lparr>is_visible := is_visible r'\<rparr>)
        (moments d) (moments (run_sweeps ts d))"
proof -
  have idem: "fst (cleanup_expired_content commit_ok now (fst (cleanup_expired_content True now d)))
                = fst (cleanup_expired_content True now d)"
    by (simp add: cleanup_expired_content_def hide_expired_idem)
  have ids: "map item_id (dreams (run_sweeps ts d)) = map item_id (dreams d)"
    "map item_id (moments (run_sweeps ts d)) = map item_id (moments d)"
    using run_sweeps_only_hidden [of d ts] by (simp_all add: only_hidden_ids)
  show ?thesis
    using run_sweeps_only_hidden [of d ts] idem ids
    by (simp add: Let_def only_hidden_def [abs_def])
       (simp add: cleanup_expired_content_def hide_expired_eq)
qed

theorem sweep_hides_expired_monotone_witness:
  "map is_visible (dreams sample_db) = [True, True, False]
   \<and> map (\<lambda>r. expires_at r \<le> timedelta_days 2) (dreams sample_db) = [True, False, True]
   \<and> map is_visible (dreams (fst (cleanup_expired_content True (timedelta_days 2) sample_db)))
       = [False, True, False]
   \<and> map is_visible (moments (fst (cleanup_expired_content True (timedelta_days 2) sample_db)))
       = [False]
   \<and> dreams (run_sweeps [(True, timedelta_days 2), (False, timedelta_days 3),
                         (True, timedelta_days 40)] sample_db) ! 2 = dreams sample_db ! 2
   \<and> map item_id (dreams (run_sweeps [(True, timedelta_days 2), (False, timedelta_days 3),
                         (True, timedelta_days 40)] sample_db)) = [1, 2, 3]"
proof -
  let ?ts = "[(True, timedelta_days 2), (False, timedelta_days 3), (True, timedelta_days 40)]"
  note t = sweep_hides_expired_monotone [of "timedelta_days 2" sample_db True ?ts]
  have vis: "map is_visible (dreams sample_db) = [True, True, False]"
    and ex: "map (\<lambda>r. expires_at r \<le> timedelta_days 2) (dreams sample_db) = [True, False, True]"
    by (simp_all add: sample_db_def sample_dream_def timedelta_days_def)
  have a: "map is_visible (dreams (fst (cleanup_expired_content True (timedelta_days 2) sample_db)))
       = [False, True, False]"
    and b: "map is_visible (moments (fst (cleanup_expired_content True (timedelta_days 2) sample_db)))
       = [False]"
    using t
    by (simp_all add: Let_def sample_db_def sample_dream_def sample_moment_def timedelta_days_def
          timedelta_seconds_def)
  have len: "2 < length (dreams sample_db)" and hid: "\<not> is_visible (dreams sample_db ! 2)"
    by (simp_all add: sample_db_def sample_dream_def)
  from t have "list_all2 (\<lambda>r r'. (is_visible r' \<longrightarrow> is_visible r) \<and> (\<not> is_visible r \<longrightarrow> r' = r)
                   \<and> r' = r\<lparr>is_visible := is_visible r'\<rparr>)
        (dreams sample_db) (dreams (run_sweeps ?ts sample_db))"
    by simp
  from list_all2_nthD [OF this len] hid
  have c: "dreams (run_sweeps ?ts sample_db) ! 2 = dreams sample_db ! 2"
    by simp
  from t have d: "map item_id (dreams (run_sweeps ?ts sample_db)) = [1, 2, 3]"
    by (simp add: sample_db_def sample_dream_def)
  from vis ex a b c d show ?thesis by simp
qed

subsection \<open>Dream quota\<close>

lemma busy_today: "length (today_dreams 1000 7 busy_db) = 10"
  by code_simp

lemma no_moderator_passes: "\<not> flagged (check_text no_moderator t)"
  by (simp add: check_text_def no_moderator_def not_flagged_def)

lemma str_of_int_10: "str_of_int 10 = ascii ''10''"
  by code_simp

lemma day_start_bounds:
  "day_start t \<le> t \<and> t < day_start t + 86400000000 \<and> day_start t mod 86400000000 = 0"
  by (simp add: day_start_def) 

text \<open>
  C5. The claim is that a request from an owner at the daily limit is rejected with the
  rate-limit error. \<open>create\_dream\<close> moderates the text before it counts: a request
  whose text is flagged is answered 400 with the moderation message, also when its owner
  has 10 dreams today.
\<close>

theorem flagged_request_at_limit_gets_400:
  "MAX_DREAMS_PER_DAY default_settings \<le> int (length (today_dreams 1000 7 busy_db))
   \<and> create_dream default_settings strict_moderator 1000 1000 99 7 sample_request busy_db
       = (busy_db, Inl (HTTPException 400 (ascii ''flagged'')))"
  by (simp add: busy_today default_settings_def create_dream_def strict_moderator_def check_text_def
        text_to_check_def sample_request_def ascii_def)

text \<open>
  C5, amended. A request whose text is flagged is rejected with status 400 and the store
  is unchanged. A request whose text is not flagged, from an owner with
  \<open>MAX_DREAMS_PER_DAY\<close> or more dreams created since the start of the current UTC day,
  is rejected with status 429 and a detail that carries the configured limit, and the
  store is unchanged; below the limit the request is admitted and one row, owned by the
  requester, is added. The window starts at the last multiple of one day at or before the
  clock reading.
\<close>

theorem dream_quota_after_moderation:
  "(flagged (check_text cm (text_to_check data)) \<longrightarrow>
      create_dream cfg cm now0 now new_id u data d
        = (d, Inl (HTTPException 400 (get_violation_message cm (check_text cm (text_to_check data))))))
   \<and> (\<not> flagged (check_text cm (text_to_check data)) \<longrightarrow>
        (MAX_DREAMS_PER_DAY cfg \<le> int (length (today_dreams now0 u d)) \<longrightarrow>
           create_dream cfg cm now0 now new_id u data d
             = (d, Inl (HTTPException 429
                   (ascii ''Maximum '' @ str_of_int (MAX_DREAMS_PER_DAY cfg) @ ascii '' dreams per day''))))
        \<and> (int (length (today_dreams now0 u d)) < MAX_DREAMS_PER_DAY cfg \<longrightarrow>
             (\<exists>r. create_dream cfg cm now0 now new_id u data d
                     = (d\<lparr>dreams := dreams d @ [r]\<rparr>, Inr (r, ENABLE_AI_FEATURES cfg))
                  \<and> item_id r = new_id \<and> user_id r = u \<and> created_at r = now)))
   \<and> today_dreams now0 u d
       = filter (\<lambda>r. user_id r = u \<and> day_start now0 \<le> created_at r) (dreams d)
   \<and> day_start now0 \<le> now0 \<and> now0 < day_start now0 + timedelta_days 1
   \<and> day_start now0 mod timedelta_days 1 = 0"
  using day_start_bounds [of now0]
  by (simp add: create_dream_def Let_def today_dreams_def timedelta_days_def)

theorem dream_quota_after_moderation_witness:
  "\<not> flagged (check_text no_moderator (text_to_check sample_request))
   \<and> MAX_DREAMS_PER_DAY default_settings \<le> int (length (today_dreams 1000 7 busy_db))
   \<and> create_dream default_settings no_moderator 1000 1000 99 7 sample_request busy_db
       = (busy_db, Inl (HTTPException 429 (ascii ''Maximum 10 dreams per day'')))
   \<and> int (length (today_dreams 1000 8 busy_db)) < MAX_DREAMS_PER_DAY default_settings
   \<and> fst (create_dream default_settings no_moderator 1000 1000 99 8 sample_request busy_db)
       \<noteq> busy_db
   \<and> day_start 1000 = 0"
proof -
  have m: "MAX_DREAMS_PER_DAY default_settings = 10"
    by (simp add: default_settings_def)
  have z: "length (today_dreams 1000 8 busy_db) = 0"
    by code_simp
  have 1: "create_dream default_settings no_moderator 1000 1000 99 7 sample_request busy_db
       = (busy_db, Inl (HTTPException 429 (ascii ''Maximum 10 dreams per day'')))"
    using dream_quota_after_moderation
            [of no_moderator sample_request default_settings 1000 1000 99 7 busy_db]
    by (simp add: no_moderator_passes busy_today m str_of_int_10 ascii_def)
  have 2: "fst (create_dream default_settings no_moderator 1000 1000 99 8 sample_request busy_db)
       \<noteq> busy_db"
    using dream_quota_after_moderation
            [of no_moderator sample_request default_settings 1000 1000 99 8 busy_db]
    by (auto simp add: no_moderator_passes z m) (metis append_self_conv db.select_convs(1) db.surjective db.update_convs(1) not_Cons_self2)
  have 3: "day_start 1000 = 0" by (simp add: day_start_def)
  from 1 2 3 show ?thesis
    by (simp add: no_moderator_passes busy_today m z)
qed

subsection \<open>Expiry\<close>

lemma hide_expired_append:
  "hide_expired t (xs @ ys) = hide_expired t xs @ hide_expired t ys"
  by (simp add: hide_expired_def)












subsection \<open>Reading items\<close>

lemma filter_id_distinct:
  "distinct (map item_id rows) \<Longrightarrow> r \<in> set rows
     \<Longrightarrow> filter (\<lambda>x. item_id x = item_id r) rows = [r]"
proof (induction rows)
  case Nil
  then show ?case by simp
next
  case (Cons a rows)
  show ?case
  proof (cases "a = r")
    case True
    from Cons.prems(1) have "item_id a \<notin> item_id ` set rows" by simp
    then have "\<forall>x\<in>set rows. item_id x \<noteq> item_id a" by (metis imageI)
    then have "filter (\<lambda>x. item_id x = item_id a) rows = []" by (simp add: filter_empty_conv)
    with True show ?thesis by simp
  next
    case False
    with Cons.prems have r: "r \<in> set rows" and "item_id a \<notin> item_id ` set rows" by auto
    then have "item_id a \<noteq> item_id r" by auto
    with Cons.IH Cons.prems(1) r show ?thesis by simp
  qed
qed

lemma get_dream_404:
  "(\<exists>detail. snd (get_dream now i d) = Inl (HTTPException 404 detail))
     \<longleftrightarrow> i \<notin> item_id ` set (dreams d)"
proof (cases "filter (\<lambda>r. item_id r = i) (dreams d)" rule: scalar_one_or_none.cases)
  case 1
  then show ?thesis by (auto simp: get_dream_def filter_empty_conv)
next
  case (2 x)
  then have "x \<in> set (filter (\<lambda>r. item_id r = i) (dreams d))" by simp
  then have "i \<in> item_id ` set (dreams d)" by auto
  with 2 show ?thesis by (auto simp: get_dream_def Let_def)
next
  case (3 x y ys)
  then have "x \<in> set (filter (\<lambda>r. item_id r = i) (dreams d))" by simp
  then have "i \<in> item_id ` set (dreams d)" by auto
  with 3 show ?thesis by (auto simp: get_dream_def)
qed

lemma get_moment_404:
  "(\<exists>detail. snd (get_moment now i d) = Inl (HTTPException 404 detail))
     \<longleftrightarrow> i \<notin> item_id ` set (moments d)"
proof (cases "filter (\<lambda>r. item_id r = i) (moments d)" rule: scalar_one_or_none.cases)
  case 1
  then show ?thesis by (auto simp: get_moment_def filter_empty_conv)
next
  case (2 x)
  then have "x \<in> set (filter (\<lambda>r. item_id r = i) (moments d))" by simp
  then have "i \<in> item_id ` set (moments d)" by auto
  with 2 show ?thesis by (auto simp: get_moment_def Let_def)
next
  case (3 x y ys)
  then have "x \<in> set (filter (\<lambda>r. item_id r = i) (moments d))" by simp
  then have "i \<in> item_id ` set (moments d)" by auto
  with 3 show ?thesis by (auto simp: get_moment_def)
qed

lemma get_dreams_members:
  "get_dreams now skip limit d = Inr rs \<Longrightarrow> r \<in> set rs
     \<Longrightarrow> r \<in> set (dreams d) \<and> now < expires_at r \<and> is_visible r \<and> is_public r"
proof -
  assume a: "get_dreams now skip limit d = Inr rs" and r: "r \<in> set rs"
  let ?f = "filter (\<lambda>r. is_public r \<and> is_visible r \<and> expires_at r > now) (dreams d)"
  from a have "rs = take (nat limit) (drop (nat skip) (sort_key (\<lambda>r. - created_at r) ?f))"
    by (simp add: get_dreams_def split: if_splits)
  with r have "r \<in> set (sort_key (\<lambda>r. - created_at r) ?f)"
    by (auto dest!: in_set_takeD in_set_dropD)
  then show ?thesis by simp
qed

lemma get_moments_members:
  "get_moments now skip limit d = Inr rs \<Longrightarrow> r \<in> set rs
     \<Longrightarrow> r \<in> set (moments d) \<and> now < expires_at r \<and> is_visible r"
proof -
  assume a: "get_moments now skip limit d = Inr rs" and r: "r \<in> set rs"
  let ?f = "filter (\<lambda>r. is_visible r \<and> expires_at r > now) (moments d)"
  from a have "rs = take (nat limit) (drop (nat skip) (sort_key (\<lambda>r. - created_at r) ?f))"
    by (simp add: get_moments_def split: if_splits)
  with r have "r \<in> set (sort_key (\<lambda>r. - created_at r) ?f)"
    by (auto dest!: in_set_takeD in_set_dropD)
  then show ?thesis by simp
qed

text \<open>
  C7. With ids unique (the primary key), a GET by id for a stored dream or moment whose
  \<open>expires_at\<close> is at or before the clock reading fails with status 410 and leaves the
  store as it is. Status 404 is the answer exactly when no row has the id, so the two
  errors are distinct. Every row returned by the public listings is a stored row whose
  expiry lies after the clock reading: expired rows are not listed.
\<close>

theorem expired_get_is_410_and_unlisted:
  "(\<forall>r. distinct (map item_id (dreams d)) \<and> r \<in> set (dreams d) \<and> expires_at r \<le> now \<longrightarrow>
      get_dream now (item_id r) d = (d, Inl (HTTPException 410 (ascii ''Dream expired''))))
   \<and> ((\<exists>detail. snd (get_dream now i d) = Inl (HTTPException 404 detail))
        \<longleftrightarrow> i \<notin> item_id ` set (dreams d))
   \<and> (\<forall>rs. get_dreams now skip limit d = Inr rs \<longrightarrow>
        (\<forall>r\<in>set rs. r \<in> set (dreams d) \<and> now < expires_at r))
   \<and> (\<forall>r. distinct (map item_id (moments d)) \<and> r \<in> set (moments d) \<and> expires_at r \<le> now \<longrightarrow>
        get_moment now (item_id r) d = (d, Inl (HTTPException 410 (ascii ''Moment expired''))))
   \<and> ((\<exists>detail. snd (get_moment now i d) = Inl (HTTPException 404 detail))
        \<longleftrightarrow> i \<notin> item_id ` set (moments d))
   \<and> (\<forall>rs. get_moments now skip limit d = Inr rs \<longrightarrow>
        (\<forall>r\<in>set rs. r \<in> set (moments d) \<and> now < expires_at r))"
proof -
  have a: "\<forall>r. distinct (map item_id (dreams d)) \<and> r \<in> set (dreams d) \<and> expires_at r \<le> now \<longrightarrow>
      get_dream now (item_id r) d = (d, Inl (HTTPException 410 (ascii ''Dream expired'')))"
    by (auto simp: get_dream_def filter_id_distinct)
  have b: "\<forall>r. distinct (map item_id (moments d)) \<and> r \<in> set (moments d) \<and> expires_at r \<le> now \<longrightarrow>
      get_moment now (item_id r) d = (d, Inl (HTTPException 410 (ascii ''Moment expired'')))"
    by (auto simp: get_moment_def filter_id_distinct)
  from a b show ?thesis
    using get_dream_404 [of now i d] get_moment_404 [of now i d]
      get_dreams_members [of now skip limit d] get_moments_members [of now skip limit d]
    by blast
qed

theorem expired_get_is_410_and_unlisted_witness:
  "distinct (map item_id (dreams sample_db))
   \<and> sample_dream 1 7 0 1 True \<in> set (dreams sample_db)
   \<and> expires_at (sample_dream 1 7 0 1 True) \<le> timedelta_days 2
   \<and> get_dream (timedelta_days 2) 1 sample_db
       = (sample_db, Inl (HTTPException 410 (ascii ''Dream expired'')))
   \<and> get_dream (timedelta_days 2) 9 sample_db
       = (sample_db, Inl (HTTPException 404 (ascii ''Dream not found'')))
   \<and> get_dreams (timedelta_days 2) 0 20 sample_db = Inr [sample_dream 2 7 0 30 True]
   \<and> sample_dream 1 7 0 1 True \<notin> set [sample_dream 2 7 0 30 True]"
proof -
  have h: "distinct (map item_id (dreams sample_db))"
    "sample_dream 1 7 0 1 True \<in> set (dreams sample_db)"
    "expires_at (sample_dream 1 7 0 1 True) \<le> timedelta_days 2"
    "item_id (sample_dream 1 7 0 1 True) = 1"
    by (simp_all add: sample_db_def sample_dream_def timedelta_days_def)
  from expired_get_is_410_and_unlisted [of sample_db "timedelta_days 2" 9 0 20] h
  have 1: "get_dream (timedelta_days 2) 1 sample_db
             = (sample_db, Inl (HTTPException 410 (ascii ''Dream expired'')))"
    by (metis (no_types, lifting))
  have 2: "get_dream (timedelta_days 2) 9 sample_db
             = (sample_db, Inl (HTTPException 404 (ascii ''Dream not found'')))"
    by (simp add: get_dream_def sample_db_def sample_dream_def)
  have 3: "get_dreams (timedelta_days 2) 0 20 sample_db = Inr [sample_dream 2 7 0 30 True]"
    by (simp add: get_dreams_def sample_db_def sample_dream_def timedelta_days_def)
  have 4: "sample_dream 1 7 0 1 True \<notin> set [sample_dream 2 7 0 30 True]"
    by (simp add: sample_dream_def)
  from h 1 2 3 4 show ?thesis by simp
qed

subsection \<open>Retention tier\<close>

text \<open>
  C10. The request schema accepts every \<open>ttl_days\<close> from 1 to 30. For a request whose
  \<open>ttl_days\<close> is not 1, 7 or 30 (5, say) that passes moderation and the daily quota,
  \<open>create\_dream\<close> raises no error: it stores and returns a dream with \<open>ttl_days = 1\<close>
  that expires one day after its creation instant.
\<close>

theorem ttl_days_outside_tiers_becomes_one:
  "(DreamCreate_valid data \<and> 1 \<le> t \<and> t \<le> 30 \<longrightarrow>
      DreamCreate_valid (data\<lparr>dream_create.ttl_days := t\<rparr>))
   \<and> (dream_create.ttl_days data \<notin> {1, 7, 30}
        \<and> \<not> flagged (check_text cm (text_to_check data))
        \<and> int (length (today_dreams now0 u d)) < MAX_DREAMS_PER_DAY cfg \<longrightarrow>
        (\<exists>r. create_dream cfg cm now0 now new_id u data d
                = (d\<lparr>dreams := dreams d @ [r]\<rparr>, Inr (r, ENABLE_AI_FEATURES cfg))
             \<and> ttl_days r = 1 \<and> created_at r = now
             \<and> expires_at r = created_at r + timedelta_days 1))"
  by (simp add: DreamCreate_valid_def create_dream_def Let_def)

theorem ttl_days_outside_tiers_becomes_one_witness:
  "DreamCreate_valid sample_request \<and> dream_create.ttl_days sample_request = 5
   \<and> create_dream default_settings no_moderator 1000 2000 99 8 sample_request busy_db
       = (busy_db\<lparr>dreams := dreams busy_db @ [sample_dream 99 8 2000 1 True]\<rparr>,
          Inr (sample_dream 99 8 2000 1 True, True))
   \<and> expires_at (sample_dream 99 8 2000 1 True) = 2000 + 86400000000"
proof -
  have v: "DreamCreate_valid sample_request" "dream_create.ttl_days sample_request = 5"
    by (simp_all add: DreamCreate_valid_def sample_request_def ascii_def)
  have z: "length (today_dreams 1000 8 busy_db) = 0"
    by code_simp
  have m: "MAX_DREAMS_PER_DAY default_settings = 10" "ENABLE_AI_FEATURES default_settings"
    by (simp_all add: default_settings_def)
  from ttl_days_outside_tiers_becomes_one
         [of sample_request 5 no_moderator 1000 8 busy_db default_settings 2000 99]
  obtain r where r: "create_dream default_settings no_moderator 1000 2000 99 8 sample_request busy_db
                = (busy_db\<lparr>dreams := dreams busy_db @ [r]\<rparr>, Inr (r, True))"
     and "ttl_days r = 1"
    using v z m no_moderator_passes by auto
  have c: "create_dream default_settings no_moderator 1000 2000 99 8 sample_request busy_db
       = (busy_db\<lparr>dreams := dreams busy_db @ [sample_dream 99 8 2000 1 True]\<rparr>,
          Inr (sample_dream 99 8 2000 1 True, True))"
    using r
    by (simp add: create_dream_def Let_def no_moderator_passes z m sample_request_def
          sample_dream_def)
  have e: "expires_at (sample_dream 99 8 2000 1 True) = 2000 + 86400000000"
    by (simp add: sample_dream_def timedelta_days_def)
  from v c e show ?thesis by simp
qed

subsection \<open>Broadcast\<close>

lemma broadcast_loop_eq:
  "broadcast_loop send m cs (active, log)
     = (filter (\<lambda>c. c \<notin> set cs \<or> send c m) active, log @ map (\<lambda>c. (c, send c m)) cs)"
proof (induction cs arbitrary: active log)
  case Nil
  show ?case by simp
next
  case (Cons c cs)
  show ?case
  proof (cases "send c m")
    case True
    have "filter (\<lambda>x. x \<notin> set cs \<or> send x m) active
            = filter (\<lambda>x. x \<notin> set (c # cs) \<or> send x m) active"
      by (rule filter_cong) (use True in auto)
    with True Cons.IH [of active "log @ [(c, True)]"] show ?thesis by simp
  next
    case False
    have "filter (\<lambda>x. x \<notin> set cs \<or> send x m) (removeAll c active)
            = filter (\<lambda>x. x \<notin> set (c # cs) \<or> send x m) active"
      unfolding removeAll_filter_not_eq filter_filter
      by (rule filter_cong) (use False in auto)
    with False Cons.IH [of "removeAll c active" "log @ [(c, False)]"] show ?thesis by simp
  qed
qed


lemma broadcast_eq:
  "broadcast send m active = (filter (\<lambda>c. send c m) active, map (\<lambda>c. (c, send c m)) active)"
proof -
  have "filter (\<lambda>c. c \<notin> set active \<or> send c m) active = filter (\<lambda>c. send c m) active"
    by (rule filter_cong) auto
  then show ?thesis by (simp add: broadcast_def broadcast_loop_eq)
qed

lemma connect_distinct: "distinct active \<Longrightarrow> distinct (connect c active)"
  by (simp add: connect_def)

lemma map_fst_log: "map fst (map (\<lambda>c. (c, f c)) xs) = xs"
  by (induction xs) simp_all

text \<open>
  C8. A broadcast over the empty set of connections sends nothing and returns. In general
  the loop makes exactly one send per connection of the set, in iteration order, whatever
  the outcomes of the earlier sends: a connection that fails is not tried again and the
  connections after it are still sent to. The set after the broadcast consists of the
  connections whose send returned; those whose send raised are removed.
\<close>

theorem broadcast_drops_failed_only:
  "broadcast send m [] = ([], [])
   \<and> map fst (snd (broadcast send m active)) = active
   \<and> (distinct active \<longrightarrow> distinct (map fst (snd (broadcast send m active)))
        \<and> distinct (fst (broadcast send m active)))
   \<and> (\<forall>c\<in>set active. (c, send c m) \<in> set (snd (broadcast send m active))
        \<and> (send c m \<longrightarrow> c \<in> set (fst (broadcast send m active)))
        \<and> (\<not> send c m \<longrightarrow> c \<notin> set (fst (broadcast send m active))))
   \<and> set (fst (broadcast send m active)) \<subseteq> set active
   \<and> fst (broadcast send m active) = filter (\<lambda>c. send c m) active"
proof -
  have 1: "fst (broadcast send m active) = filter (\<lambda>c. send c m) active"
    and 2: "snd (broadcast send m active) = map (\<lambda>c. (c, send c m)) active"
    by (simp_all add: broadcast_eq)
  have 3: "broadcast send m [] = ([], [])"
    by (simp add: broadcast_def)
  have 4: "map fst (snd (broadcast send m active)) = active"
    by (simp only: 2 map_fst_log)
  have 5: "\<forall>c\<in>set active. (c, send c m) \<in> set (snd (broadcast send m active))"
    unfolding 2 by (simp add: image_iff)
  show ?thesis
    unfolding 4
    using 3 5 by (simp add: 1)
qed


theorem broadcast_drops_failed_only_witness:
  "distinct [1, 2, 3 :: nat]
   \<and> broadcast (\<lambda>c m. c \<noteq> (2::nat)) (ascii ''new_moment'') [1, 2, 3]
       = ([1, 3], [(1, True), (2, False), (3, True)])
   \<and> broadcast (\<lambda>c m. c \<noteq> (2::nat)) (ascii ''new_moment'') [] = ([], [])"
proof -
  let ?send = "\<lambda>(c::nat) (m::str). c \<noteq> 2"
  note t = broadcast_drops_failed_only [of ?send "ascii ''new_moment''" "[1, 2, 3]"]
  from t have a: "fst (broadcast ?send (ascii ''new_moment'') [1, 2, 3]) = [1, 3]"
    by simp
  have b: "snd (broadcast ?send (ascii ''new_moment'') [1, 2, 3])
             = [(1, True), (2, False), (3, True)]"
    by (simp add: broadcast_def)
  from t have c: "broadcast ?send (ascii ''new_moment'') [] = ([], [])"
    by (rule conjunct1)
  have d: "distinct [1, 2, 3 :: nat]" by simp
  from a b have "broadcast ?send (ascii ''new_moment'') [1, 2, 3]
       = ([1, 3], [(1, True), (2, False), (3, True)])"
    by (simp only: prod_eq_iff fst_conv snd_conv)
  with c d show ?thesis by (intro conjI)
qed

subsection \<open>Moment tags\<close>

lemma split_words_no_space:
  "\<forall>c\<in>set w. \<not> sp c \<Longrightarrow> \<forall>x\<in>set (split_words sp w s). x \<noteq> [] \<and> (\<forall>c\<in>set x. \<not> sp c)"
proof (induction s arbitrary: w)
  case Nil
  then show ?case by auto
next
  case (Cons a s)
  show ?case
  proof (cases "sp a")
    case True
    have e: "\<forall>c\<in>set ([]::str). \<not> sp c" by simp
    from Cons.IH [OF e] Cons.prems True show ?thesis by auto
  next
    case False
    with Cons.prems have "\<forall>c\<in>set (w @ [a]). \<not> sp c" by auto
    from Cons.IH [OF this] False show ?thesis by simp
  qed
qed

lemma str_split_no_space:
  "x \<in> set (str_split u s) \<Longrightarrow> x \<noteq> [] \<and> (\<forall>c\<in>set x. \<not> isspace u c)"
  using split_words_no_space [of "[]" "isspace u" s] by (simp add: str_split_def)

text \<open>
  C9. The tags of a moment do not depend on the service (with or without a client) but on
  the caption and media type only. A missing or empty caption gives the media type,
  \<open>moment\<close> and \<open>now\<close>. Otherwise the tags are the first five words of the lowered
  caption that have more than 3 characters, each free of whitespace, followed by the media
  type and \<open>moment\<close>.
\<close>

theorem analyze_moment_deterministic:
  "analyze_moment svc1 u cap mt = analyze_moment svc2 u cap mt
   \<and> (\<not> truthy cap \<longrightarrow> analyze_moment svc1 u cap mt = [mt, ascii ''moment'', ascii ''now''])
   \<and> (truthy cap \<longrightarrow>
        (\<exists>ws. analyze_moment svc1 u cap mt = ws @ [mt, ascii ''moment'']
           \<and> ws = take 5 (filter (\<lambda>w. 3 < length w) (str_split u (lower u (the cap))))
           \<and> length ws \<le> 5
           \<and> (\<forall>w\<in>set ws. 3 < length w \<and> (\<forall>c\<in>set w. \<not> isspace u c))))"
proof -
  let ?ws = "take 5 (filter (\<lambda>w. 3 < length w) (str_split u (lower u (the cap))))"
  have p: "\<forall>w\<in>set ?ws. 3 < length w \<and> (\<forall>c\<in>set w. \<not> isspace u c)"
  proof
    fix w assume "w \<in> set ?ws"
    then have "w \<in> set (filter (\<lambda>w. 3 < length w) (str_split u (lower u (the cap))))"
      by (rule in_set_takeD)
    then have "3 < length w" and "w \<in> set (str_split u (lower u (the cap)))" by simp_all
    with str_split_no_space [of w u "lower u (the cap)"]
    show "3 < length w \<and> (\<forall>c\<in>set w. \<not> isspace u c)" by simp
  qed
  have l: "length ?ws \<le> 5" by simp
  have a: "analyze_moment svc1 u cap mt = analyze_moment svc2 u cap mt"
    by (simp add: analyze_moment_def)
  have b: "\<not> truthy cap \<longrightarrow> analyze_moment svc1 u cap mt = [mt, ascii ''moment'', ascii ''now'']"
    by (simp add: analyze_moment_def)
  have c: "truthy cap \<longrightarrow> analyze_moment svc1 u cap mt = ?ws @ [mt, ascii ''moment'']"
    by (simp add: analyze_moment_def Let_def)
  from a b c p l show ?thesis by blast
qed


lemma sample_tags:
  "analyze_moment \<lparr>openai_client = None\<rparr> ascii_unicode (Some sample_caption) (ascii ''photo'')
     = [ascii ''walking'', ascii ''along'', ascii ''beach'', ascii ''sunset'', ascii ''with'',
        ascii ''photo'', ascii ''moment'']"
  by code_simp

theorem analyze_moment_deterministic_witness:
  "truthy (Some sample_caption)
   \<and> analyze_moment \<lparr>openai_client = Some (\<lambda>p. Raised)\<rparr> ascii_unicode (Some sample_caption)
         (ascii ''photo'')
       = [ascii ''walking'', ascii ''along'', ascii ''beach'', ascii ''sunset'', ascii ''with'',
          ascii ''photo'', ascii ''moment'']
   \<and> \<not> truthy None
   \<and> analyze_moment \<lparr>openai_client = None\<rparr> ascii_unicode None (ascii ''video'')
       = [ascii ''video'', ascii ''moment'', ascii ''now'']"
proof -
  have t: "truthy (Some sample_caption)" "\<not> truthy None"
    by (simp_all add: sample_caption_def ascii_def)
  note d1 = analyze_moment_deterministic
         [of "\<lparr>openai_client = Some (\<lambda>p. Raised)\<rparr>" ascii_unicode "Some sample_caption"
             "ascii ''photo''" "\<lparr>openai_client = None\<rparr>"]
  from d1 have "analyze_moment \<lparr>openai_client = Some (\<lambda>p. Raised)\<rparr> ascii_unicode
                  (Some sample_caption) (ascii ''photo'')
                = analyze_moment \<lparr>openai_client = None\<rparr> ascii_unicode
                  (Some sample_caption) (ascii ''photo'')"
    by (rule conjunct1)
  then have a: "analyze_moment \<lparr>openai_client = Some (\<lambda>p. Raised)\<rparr> ascii_unicode
         (Some sample_caption) (ascii ''photo'')
       = [ascii ''walking'', ascii ''along'', ascii ''beach'', ascii ''sunset'', ascii ''with'',
          ascii ''photo'', ascii ''moment'']"
    by (simp only: sample_tags)
  note d2 = analyze_moment_deterministic
         [of "\<lparr>openai_client = None\<rparr>" ascii_unicode None "ascii ''video''"
             "\<lparr>openai_client = None\<rparr>"]
  from d2 have "\<not> truthy None \<longrightarrow> analyze_moment \<lparr>openai_client = None\<rparr> ascii_unicode None
                   (ascii ''video'') = [ascii ''video'', ascii ''moment'', ascii ''now'']"
    by (rule conjunct1 [OF conjunct2])
  with t(2) have b: "analyze_moment \<lparr>openai_client = None\<rparr> ascii_unicode None (ascii ''video'')
       = [ascii ''video'', ascii ''moment'', ascii ''now'']"
    by (rule rev_mp)
  from t a b show ?thesis by (intro conjI)
qed

end
